theory Spec2Isabelle
  imports Main "HOL-Library.Word" "HOL-Library.Multiset"
begin

unbundle bit_operations_syntax

section \<open>Common types\<close>

text \<open>
  Go's \<open>time.Duration\<close> is an \<open>int64\<close> count of nanoseconds: a 64-bit word read
  as two's complement. Comparisons of durations are signed, additions wrap.
\<close>

type_synonym Duration = "64 word"
type_synonym byte = "8 word"

definition dless :: "Duration \<Rightarrow> Duration \<Rightarrow> bool" where
  "dless a b = (sint a < sint b)"

text \<open>
  A \<open>time.Time\<close> instant is an unbounded count of nanoseconds. \<open>t.Sub(u)\<close> is the
  difference as a Duration, saturated at the largest and smallest Duration.
\<close>

type_synonym Time = int

definition maxDuration :: int where
  "maxDuration = 2 ^ 63 - 1"

definition minDuration :: int where
  "minDuration = - (2 ^ 63)"

definition Sub :: "Time \<Rightarrow> Time \<Rightarrow> Duration" where
  "Sub t u =
     (if t - u > maxDuration then word_of_int maxDuration
      else if t - u < minDuration then word_of_int minDuration
      else word_of_int (t - u))"

datatype error =
    ErrIcmpConn       \<comment> \<open>"failed to create ICMP connection"\<close>
  | ErrHopFailed      \<comment> \<open>"failed to complete connection or receive ICMP TTL Exceeded" wrapping os.ErrNotExist\<close>
  | ErrNotExist       \<comment> \<open>os.ErrNotExist\<close>
  | ErrInvalid        \<comment> \<open>os.ErrInvalid\<close>
  | ErrWrite          \<comment> \<open>an error of conn.Write\<close>
  | ErrNotResponding  \<comment> \<open>"destination (...) not responding to TCP connection"\<close>

text \<open>The run-time panics of Go that the code at hand can meet.\<close>

datatype panic =
    MakeSliceLenOutOfRange   \<comment> \<open>make with a negative length\<close>
  | IndexOutOfRange          \<comment> \<open>index out of range\<close>
  | DivideByZero             \<comment> \<open>integer divide by zero\<close>
  | FloatToUintUndefined     \<comment> \<open>a float64 outside uint64: the conversion's result is implementation-dependent\<close>

section \<open>client/tcp/traceroute.go\<close>

subsection \<open>HopData and calcHopData\<close>

text \<open>
  \<open>payloads.HopData\<close> is declared outside the files at hand. Its fields are the ones
  traceroute.go reads and writes. \<open>Last\<close>, \<open>Best\<close>, \<open>Worst\<close> and \<open>Total\<close> are
  assigned from a \<open>time.Duration\<close>. The integer type of the counters \<open>Sent\<close>,
  \<open>Rcvd\<close> and \<open>Lost\<close> is not visible (they are only incremented), so it is the
  type parameter \<open>'c\<close>; theorems that depend on wrap-around take \<open>'c\<close> to be a word.
\<close>

record 'c HopData =
  Addr :: string
  Name :: string
  FullName :: string
  Sent :: 'c
  Rcvd :: 'c
  Lost :: 'c
  Last :: Duration
  Best :: Duration
  Worst :: Duration
  Total :: Duration

text \<open>\<open>var hopData payloads.HopData\<close>: every field has its zero value.\<close>

definition zeroHopData :: "'c::zero HopData" where
  "zeroHopData =
     \<lparr>Addr = [], Name = [], FullName = [], Sent = 0, Rcvd = 0, Lost = 0,
      Last = 0, Best = 0, Worst = 0, Total = 0\<rparr>"

definition calcHopData :: "('c::{plus,one}) HopData \<Rightarrow> string \<Rightarrow> Duration \<Rightarrow> 'c HopData" where
  "calcHopData hopData peerAddr elapsed =
     (let h1 = hopData\<lparr>Addr := peerAddr\<rparr>;
          h2 = h1\<lparr>Last := elapsed\<rparr>;
          h3 = (if dless elapsed (Best h2) then h2\<lparr>Best := elapsed\<rparr> else h2);
          h4 = (if dless (Worst h3) elapsed then h3\<lparr>Worst := elapsed\<rparr> else h3);
          h5 = h4\<lparr>Total := Total h4 + elapsed\<rparr>
      in h5\<lparr>Rcvd := Rcvd h5 + 1\<rparr>)"

text \<open>Aggregating a sequence of probe results \<open>(peer, elapsed)\<close>, first to last.\<close>

fun calcAll :: "('c::{plus,one}) HopData \<Rightarrow> (string \<times> Duration) list \<Rightarrow> 'c HopData" where
  "calcAll h [] = h"
| "calcAll h (r # rs) = calcAll (calcHopData h (fst r) (snd r)) rs"

text \<open>The part of a HopData that the aggregation law speaks about.\<close>

definition aggregate :: "'c HopData \<Rightarrow> Duration \<times> Duration \<times> Duration \<times> 'c" where
  "aggregate h = (Best h, Worst h, Total h, Rcvd h)"

definition aggStep :: "Duration \<Rightarrow> Duration \<times> Duration \<times> Duration \<times> ('c::{plus,one})
    \<Rightarrow> Duration \<times> Duration \<times> Duration \<times> 'c" where
  "aggStep e a =
     (case a of (b, w, t, r) \<Rightarrow>
        (if dless e b then e else b, if dless w e then e else w, t + e, r + 1))"

subsection \<open>The probe fingerprint\<close>

text \<open>
  \<open>bytes.Index(s, sep)\<close>: the index of the first instance of \<open>sep\<close> in \<open>s\<close>, or
  \<open>-1\<close> if there is none.
\<close>

fun indexFrom :: "byte list \<Rightarrow> byte list \<Rightarrow> int \<Rightarrow> int" where
  "indexFrom [] sep i = (if sep = [] then i else - 1)"
| "indexFrom (x # xs) sep i =
     (if take (length sep) (x # xs) = sep then i else indexFrom xs sep (i + 1))"

definition bytes_Index :: "byte list \<Rightarrow> byte list \<Rightarrow> int" where
  "bytes_Index s sep = indexFrom s sep 0"

text \<open>\<open>binary.BigEndian.PutUint16(b, v)\<close> writes \<open>byte(v >> 8)\<close>, then \<open>byte(v)\<close>.\<close>

definition PutUint16 :: "16 word \<Rightarrow> byte list" where
  "PutUint16 v = [ucast (drop_bit 8 v), ucast v]"

text \<open>
  \<open>strconv.ParseUint(s, 10, 16)\<close>, value only (probeHop discards the error): 0 on a
  syntax error (an empty string, a byte that is not a decimal digit), 65535 as soon as
  the digits read so far exceed 16 bits.
\<close>

definition isDigit :: "char \<Rightarrow> bool" where
  "isDigit c = (48 \<le> (of_char c :: nat) \<and> (of_char c :: nat) \<le> 57)"

fun parseDigits :: "string \<Rightarrow> nat \<Rightarrow> nat" where
  "parseDigits [] n = n"
| "parseDigits (c # cs) n =
     (if \<not> isDigit c then 0
      else if n * 10 + (of_char c - 48) > 65535 then 65535
      else parseDigits cs (n * 10 + (of_char c - 48)))"

definition ParseUint16 :: "string \<Rightarrow> 64 word" where
  "ParseUint16 s = (if s = [] then 0 else of_nat (parseDigits s 0))"

text \<open>The parts of \<open>c.NetTools\<close> and of \<open>session.Test\<close> that probeHop reads.\<close>

record NetTools =
  LocalPort :: "16 word"

record Test =
  RemoteIP :: string
  RemotePort :: string

text \<open>
  Lines 126 to 130: the local port. \<open>hop\<close> is a Go \<open>int\<close>; \<open>uint16(hop)\<close> keeps
  its low 16 bits and the addition wraps.
\<close>

definition localPortNum :: "NetTools \<Rightarrow> int \<Rightarrow> 16 word" where
  "localPortNum nt hop =
     (if LocalPort nt \<noteq> 0 then LocalPort nt else 8888) + word_of_int hop"

text \<open>Lines 131 to 134: the four bytes \<open>b\<close>.\<close>

definition fingerprint :: "NetTools \<Rightarrow> Test \<Rightarrow> int \<Rightarrow> byte list" where
  "fingerprint nt test hop =
     PutUint16 (localPortNum nt hop) @ PutUint16 (ucast (ParseUint16 (RemotePort test)))"

subsection \<open>probeHop\<close>

text \<open>
  What one call of \<open>ReceiveICMPFromPeer\<close> hands to the receiver: the type of the ICMP
  message, the \<open>Data\<close> of its body (the quoted packet) and the peer's address as a string.
  A call that yields no TimeExceeded message (another type, or the deadline) is a reply
  of type \<open>ICMPOther\<close>.
\<close>

datatype ICMPType = ICMPv4TimeExceeded | ICMPv6TimeExceeded | ICMPOther

record icmpReply =
  msgType :: ICMPType
  body :: "byte list"
  peer :: string

text \<open>
  The network as one probe sees it: whether \<open>IcmpNewConn\<close> fails, whether
  \<open>Dial\<close> from a given local port with a given TTL fails, the reply of the k-th
  call of \<open>ReceiveICMPFromPeer\<close>, and the clock readings
  (\<open>time.Now()\<close> at line 156, at line 169, and at line 152 when the receiver leaves
  its loop at call k).
\<close>

record ProbeEnv =
  icmpNewConnFails :: bool
  dialFails :: "16 word \<Rightarrow> int \<Rightarrow> bool"
  received :: "nat \<Rightarrow> icmpReply"
  startTime :: Time
  dialEndTime :: Time
  recvEndTime :: "nat \<Rightarrow> Time"

text \<open>Lines 142 to 148: the test the receiver applies to a reply.\<close>

definition accepts :: "byte list \<Rightarrow> icmpReply \<Rightarrow> bool" where
  "accepts b m =
     (if msgType m = ICMPv4TimeExceeded \<or> msgType m = ICMPv6TimeExceeded
      then bytes_Index (body m) (take 4 b) > 0
      else False)"

text \<open>
  Lines 140 to 150: the receiver's loop has no exit but a match. The result is the
  number of the call that matched; the loop does not return when no reply ever matches.
\<close>

partial_function (option) icmpReceiver :: "(nat \<Rightarrow> icmpReply) \<Rightarrow> byte list \<Rightarrow> nat \<Rightarrow> nat option" where
  "icmpReceiver rcv b k = (if accepts b (rcv k) then Some k else icmpReceiver rcv b (Suc k))"

text \<open>
  Lines 156 to 172 after \<open>hopData.Sent++\<close>: the peer address, the end time and
  \<open>isLast\<close>. When the dial fails the caller waits on the receiver's two channels,
  for ever if the receiver never matches.
\<close>

definition probeWait :: "NetTools \<Rightarrow> Test \<Rightarrow> ProbeEnv \<Rightarrow> int \<Rightarrow> (string \<times> Time \<times> bool) option" where
  "probeWait nt test env hop =
     (if dialFails env (localPortNum nt hop) hop
      then (case icmpReceiver (received env) (fingerprint nt test hop) 0 of
              None \<Rightarrow> None
            | Some k \<Rightarrow> Some (peer (received env k), recvEndTime env k, False))
      else Some (RemoteIP test, dialEndTime env, True))"

text \<open>Line 175: the probe counts as lost.\<close>

definition isLost :: "string \<Rightarrow> string \<Rightarrow> bool" where
  "isLost peerAddr hopIP = (peerAddr = [] \<or> (hopIP \<noteq> [] \<and> peerAddr \<noteq> hopIP))"

text \<open>
  probeHop returns the error, \<open>isLast\<close> and the HopData it has updated through the
  pointer; \<open>None\<close> when it does not return.
\<close>

definition probeHop :: "NetTools \<Rightarrow> Test \<Rightarrow> ProbeEnv \<Rightarrow> int \<Rightarrow> string \<Rightarrow> ('c::{plus,one}) HopData
    \<Rightarrow> (error option \<times> bool \<times> 'c HopData) option" where
  "probeHop nt test env hop hopIP hopData =
     (if icmpNewConnFails env then Some (Some ErrIcmpConn, False, hopData)
      else
        let sent = hopData\<lparr>Sent := Sent hopData + 1\<rparr> in
        case probeWait nt test env hop of
          None \<Rightarrow> None
        | Some (peerAddr, endTime, isLast) \<Rightarrow>
            let elapsed = Sub endTime (startTime env) in
            if isLost peerAddr hopIP
            then Some (Some ErrHopFailed, isLast, sent\<lparr>Lost := Lost sent + 1\<rparr>)
            else Some (None, isLast, calcHopData sent peerAddr elapsed))"

text \<open>
  The HopData behind the pointer once probeHop has gone as far as it goes: the one
  it returns with, or, when it waits for ever at line 165, the one that line 163 has
  left.
\<close>

definition probeHopState :: "NetTools \<Rightarrow> Test \<Rightarrow> ProbeEnv \<Rightarrow> int \<Rightarrow> string \<Rightarrow> ('c::{plus,one}) HopData
    \<Rightarrow> 'c HopData" where
  "probeHopState nt test env hop hopIP hopData =
     (if icmpNewConnFails env then hopData
      else
        let sent = hopData\<lparr>Sent := Sent hopData + 1\<rparr> in
        case probeWait nt test env hop of
          None \<Rightarrow> sent
        | Some (peerAddr, endTime, isLast) \<Rightarrow>
            let elapsed = Sub endTime (startTime env) in
            if isLost peerAddr hopIP
            then sent\<lparr>Lost := Lost sent + 1\<rparr>
            else calcHopData sent peerAddr elapsed)"

subsection \<open>lookupHopName and discoverHops\<close>

text \<open>
  \<open>net.LookupAddr\<close> is the parameter \<open>lookupAddr\<close>: \<open>None\<close> for an error, else the
  names found.
\<close>

definition lookupHopName :: "(string \<Rightarrow> string list option) \<Rightarrow> string \<Rightarrow> string \<times> string" where
  "lookupHopName lookupAddr addr =
     (if addr = [] then ([], [])
      else case lookupAddr addr of
             None \<Rightarrow> ([], [])
           | Some [] \<Rightarrow> ([], [])
           | Some (n0 # ns) \<Rightarrow>
               let sz = length n0;
                   name = (if sz > 0 \<and> n0 ! (sz - 1) = CHR ''.'' then take (sz - 1) n0 else n0);
                   tname = (if length name > 16 then take 16 name @ ''...'' else name)
               in (tname, name))"

text \<open>
  The loop of discoverHops at index \<open>i\<close> with \<open>r\<close> iterations left. \<open>envs i\<close> is the
  network as the probe of hop \<open>i + 1\<close> sees it. A nil slice is the empty list.
\<close>

fun discoverLoop :: "NetTools \<Rightarrow> Test \<Rightarrow> (string \<Rightarrow> string list option) \<Rightarrow> (nat \<Rightarrow> ProbeEnv)
    \<Rightarrow> nat \<Rightarrow> nat \<Rightarrow> ('c::{plus,one,zero}) HopData list \<Rightarrow> ('c HopData list \<times> error option) option" where
  "discoverLoop nt test lookupAddr envs 0 i hops = Some ([], Some ErrNotExist)"
| "discoverLoop nt test lookupAddr envs (Suc r) i hops =
     (case probeHop nt test (envs i) (int i + 1) [] zeroHopData of
        None \<Rightarrow> None
      | Some (err, isLast, hopData) \<Rightarrow>
          let hopData' =
                (if err = None
                 then hopData\<lparr>Name := fst (lookupHopName lookupAddr (Addr hopData)),
                              FullName := snd (lookupHopName lookupAddr (Addr hopData))\<rparr>
                 else hopData);
              hops' = hops[i := hopData']
          in if isLast then Some (take (i + 1) hops', None)
             else discoverLoop nt test lookupAddr envs r (Suc i) hops')"

definition discoverHops :: "NetTools \<Rightarrow> Test \<Rightarrow> (string \<Rightarrow> string list option) \<Rightarrow> (nat \<Rightarrow> ProbeEnv)
    \<Rightarrow> int \<Rightarrow> (panic + ('c::{plus,one,zero}) HopData list \<times> error option) option" where
  "discoverHops nt test lookupAddr envs maxHops =
     (if maxHops < 0 then Some (Inl MakeSliceLenOutOfRange)
      else map_option Inr
             (discoverLoop nt test lookupAddr envs (nat maxHops) 0
                (replicate (nat maxHops) zeroHopData)))"

text \<open>
  The first result TestTraceRoute sends on \<open>results\<close>: on an error of discoverHops it
  reports failure with the hops that discoverHops returned as its body.
\<close>

record 'c TestResult =
  Success :: bool
  Error :: "error option"
  Body :: "'c HopData list"

definition TestTraceRoute :: "NetTools \<Rightarrow> Test \<Rightarrow> (string \<Rightarrow> string list option) \<Rightarrow> (nat \<Rightarrow> ProbeEnv)
    \<Rightarrow> int \<Rightarrow> (panic + ('c::{plus,one,zero}) TestResult) option" where
  "TestTraceRoute nt test lookupAddr envs maxHops =
     (case discoverHops nt test lookupAddr envs maxHops of
        None \<Rightarrow> None
      | Some (Inl p) \<Rightarrow> Some (Inl p)
      | Some (Inr (hops, err)) \<Rightarrow>
          (if err \<noteq> None then Some (Inr \<lparr>Success = False, Error = Some ErrNotResponding, Body = hops\<rparr>)
           else Some (Inr \<lparr>Success = True, Error = None, Body = hops\<rparr>)))"

subsection \<open>A concrete three-hop network\<close>

text \<open>
  The client probes \<open>10.0.0.9:8888\<close> from the default local port. The routers at
  TTL 1 and TTL 2 answer the probe's second receive call with a TimeExceeded message
  that quotes the probe's ports behind two bytes of header; at TTL 3 the dial succeeds.
\<close>

definition wTest :: Test where
  "wTest = \<lparr>RemoteIP = ''10.0.0.9'', RemotePort = ''8888''\<rparr>"

definition wNet :: NetTools where
  "wNet = \<lparr>LocalPort = 0\<rparr>"

definition wReplyMiss :: icmpReply where
  "wReplyMiss = \<lparr>msgType = ICMPOther, body = [], peer = ''10.9.9.9''\<rparr>"

definition wReply :: "byte list \<Rightarrow> string \<Rightarrow> icmpReply" where
  "wReply fp p = \<lparr>msgType = ICMPv4TimeExceeded, body = [69, 0] @ fp, peer = p\<rparr>"

definition wEnv :: "byte list \<Rightarrow> string \<Rightarrow> ProbeEnv" where
  "wEnv fp p =
     \<lparr>icmpNewConnFails = False, dialFails = (\<lambda>port ttl. True),
      received = (\<lambda>k. if k = 0 then wReplyMiss else wReply fp p),
      startTime = 1000, dialEndTime = 0, recvEndTime = (\<lambda>k. 1000 + 5000000 * int k)\<rparr>"

definition wEnvLast :: ProbeEnv where
  "wEnvLast =
     \<lparr>icmpNewConnFails = False, dialFails = (\<lambda>port ttl. False),
      received = (\<lambda>k. wReplyMiss),
      startTime = 1000, dialEndTime = 9001000, recvEndTime = (\<lambda>k. 0)\<rparr>"

definition wEnvs :: "nat \<Rightarrow> ProbeEnv" where
  "wEnvs i =
     (if i = 0 then wEnv [34, 185, 34, 184] ''10.0.0.1''
      else if i = 1 then wEnv [34, 186, 34, 184] ''10.0.0.2''
      else wEnvLast)"

text \<open>The same routers when no dial ever succeeds.\<close>

definition wEnvsSilent :: "nat \<Rightarrow> ProbeEnv" where
  "wEnvsSilent i =
     (if i = 0 then wEnv [34, 185, 34, 184] ''10.0.0.1''
      else wEnv [34, 186, 34, 184] ''10.0.0.2'')"

definition wLookup :: "string \<Rightarrow> string list option" where
  "wLookup addr = (if addr = ''10.0.0.1'' then Some [''gw.example.''] else None)"

text \<open>
  A router that never answers: the dial fails and no call of the receiver ever
  yields a TimeExceeded message.
\<close>

definition wEnvMute :: ProbeEnv where
  "wEnvMute =
     \<lparr>icmpNewConnFails = False, dialFails = (\<lambda>port ttl. True),
      received = (\<lambda>k. wReplyMiss),
      startTime = 1000, dialEndTime = 0, recvEndTime = (\<lambda>k. 1000 + 2000000000 * int k)\<rparr>"

text \<open>The hops this network yields.\<close>

definition wHop1 :: "32 word HopData" where
  "wHop1 = zeroHopData\<lparr>Addr := ''10.0.0.1'', Sent := 1, Rcvd := 1,
        Last := 5000000, Worst := 5000000, Total := 5000000\<rparr>"

definition wHop2 :: "32 word HopData" where
  "wHop2 = zeroHopData\<lparr>Addr := ''10.0.0.2'', Sent := 1, Rcvd := 1,
        Last := 5000000, Worst := 5000000, Total := 5000000\<rparr>"

definition wHop3 :: "32 word HopData" where
  "wHop3 = zeroHopData\<lparr>Addr := ''10.0.0.9'', Sent := 1, Rcvd := 1,
        Last := 9000000, Worst := 9000000, Total := 9000000\<rparr>"

section \<open>server.go\<close>

subsection \<open>float64 arithmetic\<close>

text \<open>
  The two highest percentiles are indexed through \<open>float64\<close>. A finite float64 is
  \<open>F64 m e\<close>, the number \<open>m * 2 ^ e\<close> with \<open>\<bar>m\<bar> \<le> 2 ^ 53\<close>. Each operation is
  the exact result rounded to 53 significant bits, ties to even, as IEEE 754 has it
  in the normal range; the values of this file (a \<open>uint32\<close> times a constant near
  100, over 100, minus 1) stay in that range.
\<close>

datatype f64 = F64 (mant: int) (expo: int)

text \<open>The number of binary digits of a positive integer.\<close>

function bitLen :: "int \<Rightarrow> nat" where
  "bitLen n = (if n \<le> 0 then 0 else Suc (bitLen (n div 2)))"
  by pat_completeness auto
termination
  by (relation "measure nat") auto

declare bitLen.simps [simp del]

text \<open>The number \<open>m * 2 ^ e\<close>, rounded to 53 significant bits, ties to even.\<close>

definition round53 :: "int \<Rightarrow> int \<Rightarrow> f64" where
  "round53 m e =
     (let a = \<bar>m\<bar>; b = bitLen a in
      if b \<le> 53 then F64 m e
      else
        let s = b - 53;
            q = a div 2 ^ s;
            r = a mod 2 ^ s;
            half = 2 ^ (s - 1);
            q' = (if r > half \<or> (r = half \<and> odd q) then q + 1 else q)
        in F64 (sgn m * q') (e + int s))"

definition fmul :: "f64 \<Rightarrow> f64 \<Rightarrow> f64" where
  "fmul x y = round53 (mant x * mant y) (expo x + expo y)"

text \<open>
  Division by a nonzero \<open>y\<close> (server.go divides by the constant 100 only): the
  quotient of the mantissas to at least 57 bits, with one more bit that records a
  nonzero remainder, then rounded.
\<close>

definition fdiv :: "f64 \<Rightarrow> f64 \<Rightarrow> f64" where
  "fdiv x y =
     (let a = \<bar>mant x\<bar>;
          b = \<bar>mant y\<bar>;
          k = 56 + bitLen b;
          q = (a * 2 ^ k) div b;
          r = (a * 2 ^ k) mod b;
          q2 = 2 * q + (if r = 0 then 0 else 1)
      in round53 (sgn (mant x) * sgn (mant y) * q2) (expo x - expo y - int k - 1))"

definition fsub :: "f64 \<Rightarrow> f64 \<Rightarrow> f64" where
  "fsub x y =
     (let e = min (expo x) (expo y)
      in round53 (mant x * 2 ^ nat (expo x - e) - mant y * 2 ^ nat (expo y - e)) e)"

text \<open>\<open>float64(n)\<close> for a \<open>uint32\<close> is exact.\<close>

definition float64 :: "32 word \<Rightarrow> f64" where
  "float64 n = F64 (uint n) 0"

text \<open>The constants \<open>99.9\<close>, \<open>99.99\<close>, \<open>100\<close> and \<open>1\<close> as float64.\<close>

definition c99_9 :: f64 where
  "c99_9 = fdiv (F64 999 0) (F64 10 0)"

definition c99_99 :: f64 where
  "c99_99 = fdiv (F64 9999 0) (F64 100 0)"

definition c100 :: f64 where
  "c100 = F64 100 0"

definition c1 :: f64 where
  "c1 = F64 1 0"

text \<open>
  \<open>uint64(x)\<close> discards the fraction. For a negative \<open>x\<close> or one beyond
  \<open>uint64\<close> Go leaves the result to the implementation: \<open>None\<close>.
\<close>

definition uint64 :: "f64 \<Rightarrow> 64 word option" where
  "uint64 x =
     (let t = (if expo x \<ge> 0 then \<bar>mant x\<bar> * 2 ^ nat (expo x)
               else \<bar>mant x\<bar> div 2 ^ nat (- expo x))
      in if mant x < 0 \<and> t \<noteq> 0 then None
         else if t \<ge> 2 ^ 64 then None
         else Some (word_of_int t))"

subsection \<open>srvrRunTCPLatencyTest: the statistics of one batch\<close>

text \<open>Indexing a slice panics out of range.\<close>

definition at :: "'a list \<Rightarrow> int \<Rightarrow> panic + 'a" where
  "at xs i = (if 0 \<le> i \<and> i < int (length xs) then Inr (xs ! nat i) else Inl IndexOutOfRange)"

definition bindP :: "panic + 'a \<Rightarrow> ('a \<Rightarrow> panic + 'b) \<Rightarrow> panic + 'b" where
  "bindP r f = (case r of Inl p \<Rightarrow> Inl p | Inr v \<Rightarrow> f v)"

text \<open>
  Go's \<open>/\<close> on \<open>int64\<close> truncates towards zero, wraps for the one overflowing case
  and panics on a zero divisor.
\<close>

definition tdiv :: "int \<Rightarrow> int \<Rightarrow> int" where
  "tdiv a b = sgn a * sgn b * (\<bar>a\<bar> div \<bar>b\<bar>)"

definition div64 :: "64 word \<Rightarrow> 64 word \<Rightarrow> panic + 64 word" where
  "div64 a b = (if b = 0 then Inl DivideByZero else Inr (word_of_int (tdiv (sint a) (sint b))))"

text \<open>Lines 209 to 212: the sum of the samples, in \<open>int64\<close>.\<close>

definition sumNanos :: "Duration list \<Rightarrow> 64 word" where
  "sumNanos latencyNumbers = foldl (\<lambda>sum d. sum + d) 0 latencyNumbers"

text \<open>Lines 222 to 225.\<close>

definition rttCountFixed :: "32 word \<Rightarrow> 32 word" where
  "rttCountFixed rttCount = (if rttCount = 1 then 2 else rttCount)"

text \<open>
  Lines 230 to 233: the index \<open>((rttCountFixed*p)/100)-1\<close>, computed in
  \<open>uint32\<close>.
\<close>

definition pctIndex :: "32 word \<Rightarrow> 32 word \<Rightarrow> 32 word" where
  "pctIndex n p = (n * p) div 100 - 1"

text \<open>
  Lines 234 and 235: the index \<open>uint64(((float64(rttCountFixed)*c)/100)-1)\<close>.
\<close>

definition floatPctIndex :: "32 word \<Rightarrow> f64 \<Rightarrow> 64 word option" where
  "floatPctIndex n c = uint64 (fsub (fdiv (fmul (float64 n) c) c100) c1)"

definition atFloat :: "'a list \<Rightarrow> 64 word option \<Rightarrow> panic + 'a" where
  "atFloat xs i = (case i of None \<Rightarrow> Inl FloatToUintUndefined | Some j \<Rightarrow> at xs (uint j))"

text \<open>What a batch hands to \<open>ui.emitLatencyResults\<close>.\<close>

record LatencyResult =
  avg :: Duration
  min_l :: Duration
  max_l :: Duration
  p50 :: Duration
  p90 :: Duration
  p95 :: Duration
  p99 :: Duration
  p999 :: Duration
  p9999 :: Duration

text \<open>
  Lines 209 to 239 for one batch: \<open>latencyNumbers\<close> holds the \<open>rttCount\<close> samples
  that the loop of lines 194 to 208 has stored. \<open>sort.SliceStable\<close> with the
  \<open>int64\<close> order is a stable sort on the signed value.
\<close>

definition latencyStats :: "32 word \<Rightarrow> Duration list \<Rightarrow> panic + LatencyResult" where
  "latencyStats rttCount latencyNumbers =
     bindP (div64 (sumNanos latencyNumbers) (ucast rttCount)) (\<lambda>elapsed.
       let sorted = sort_key sint latencyNumbers;
           fixed = rttCountFixed rttCount
       in
       bindP (at sorted 0) (\<lambda>mn.
       bindP (at sorted (uint (rttCount - 1))) (\<lambda>mx.
       bindP (at sorted (uint (pctIndex fixed 50))) (\<lambda>v50.
       bindP (at sorted (uint (pctIndex fixed 90))) (\<lambda>v90.
       bindP (at sorted (uint (pctIndex fixed 95))) (\<lambda>v95.
       bindP (at sorted (uint (pctIndex fixed 99))) (\<lambda>v99.
       bindP (atFloat sorted (floatPctIndex fixed c99_9)) (\<lambda>v999.
       bindP (atFloat sorted (floatPctIndex fixed c99_99)) (\<lambda>v9999.
         Inr \<lparr>avg = elapsed, min_l = mn, max_l = mx, p50 = v50, p90 = v90, p95 = v95,
              p99 = v99, p999 = v999, p9999 = v9999\<rparr>)))))))))"

text \<open>Two batches far beyond the usual sizes: 47721858 and 43383509 samples.\<close>

definition slowThenFast :: "Duration list" where
  "slowThenFast = replicate 37721858 2000000 @ replicate 10000000 1000000"

definition steady :: "Duration list" where
  "steady = replicate 43383509 1000000"

subsection \<open>srvrRunUDPPacketHandler: one datagram\<close>

text \<open>
  \<open>ethrTest\<close> is declared outside the files at hand; these are the fields server.go
  uses, the counters of \<open>testResult\<close> being \<open>uint64\<close>. Tests are shared through
  pointers: a pointer is an address of the store \<open>heap\<close>, and \<open>nil\<close> is \<open>None\<close>.
\<close>

datatype EthrProtocol = TCP | UDP | ICMP

datatype EthrTestType = All | Bandwidth | Latency

record ethrTest =
  remoteIP :: string
  bw :: "64 word"
  cps :: "64 word"
  pps :: "64 word"
  latency :: "64 word"
  lastAccess :: Time
  isActive :: bool

type_synonym ptr = nat

record Server =
  registry :: "string \<times> EthrProtocol \<times> EthrTestType \<Rightarrow> ptr option"
  heap :: "ptr \<Rightarrow> ethrTest option"
  nextPtr :: ptr

text \<open>
  Modelled from the spec: \<open>createOrGetTest\<close> is not among the source files. The spec
  (4.E) has it return the existing Test if present, else create one, insert it and
  return it with \<open>isNew = true\<close>. The spec does not fix the fields of a new Test: they
  are the parameter \<open>fresh\<close>.
\<close>

definition createOrGetTest :: "ethrTest \<Rightarrow> Server \<Rightarrow> string \<Rightarrow> EthrProtocol \<Rightarrow> EthrTestType
    \<Rightarrow> ptr option \<times> bool \<times> Server" where
  "createOrGetTest fresh srv remote proto ty =
     (case registry srv (remote, proto, ty) of
        Some p \<Rightarrow> (Some p, False, srv)
      | None \<Rightarrow>
          (Some (nextPtr srv), True,
           srv\<lparr>registry := (registry srv)((remote, proto, ty) \<mapsto> nextPtr srv),
               heap := (heap srv)(nextPtr srv \<mapsto> fresh),
               nextPtr := Suc (nextPtr srv)\<rparr>))"

text \<open>
  handshakeWithClient, the error it returns: \<open>decoded\<close> is the \<open>Type\<close> of the message
  that the gob decoder yields (\<open>None\<close> when decoding fails), \<open>writeFails\<close> tells
  whether \<open>conn.Write\<close> of the ACK fails. The error of \<open>Encode\<close> is overwritten.
\<close>

datatype EthrMsgType = EthrInv | EthrSyn | EthrAck | EthrFin | EthrBgn

definition handshakeWithClient :: "EthrMsgType option \<Rightarrow> bool \<Rightarrow> error option" where
  "handshakeWithClient decoded writeFails =
     (case decoded of
        None \<Rightarrow> Some ErrInvalid
      | Some t \<Rightarrow>
          if t \<noteq> EthrSyn then Some ErrInvalid
          else if writeFails then Some ErrWrite else None)"

text \<open>
  One iteration of the worker's loop reads: whether \<open>ReadFromUDP\<close> fails, the byte
  count \<open>n\<close> (here \<open>n_read\<close>), the host of the sender, the clock at line 323, and what the handshake
  meets.
\<close>

record Datagram =
  readFails :: bool
  n_read :: int
  server :: string
  now :: Time
  decoded :: "EthrMsgType option"
  writeFails :: bool

record Worker =
  tests :: "string \<Rightarrow> ptr option"
  srv :: Server

datatype 'a step = Continue 'a | Return 'a

text \<open>Lines 322 to 328 on the variable \<open>test\<close> in scope there.\<close>

definition countDatagram :: "ptr option \<Rightarrow> Datagram \<Rightarrow> Server \<Rightarrow> Server" where
  "countDatagram test d s =
     (case test of
        None \<Rightarrow> s
      | Some p \<Rightarrow>
          (case heap s p of
             None \<Rightarrow> s
           | Some t \<Rightarrow>
               s\<lparr>heap := (heap s)(p \<mapsto>
                   t\<lparr>lastAccess := now d, pps := pps t + 1, bw := bw t + word_of_int (n_read d)\<rparr>)\<rparr>))"

text \<open>
  Lines 299 to 329. \<open>test, found := tests[server]\<close> declares the \<open>test\<close> that line
  322 reads; it is nil when the sender is not in the map. Inside \<open>if !found\<close>,
  \<open>test, isNew := createOrGetTest(...)\<close> declares a second \<open>test\<close> (here
  \<open>created\<close>) whose scope ends with that block. A failed read ends the loop, a
  failed handshake returns.
\<close>

definition srvrRunUDPPacket :: "ethrTest \<Rightarrow> Worker \<Rightarrow> Datagram \<Rightarrow> Worker step" where
  "srvrRunUDPPacket fresh w d =
     (if readFails d then Return w
      else
        let test = tests w (server d) in
        if test = None
        then
          (case createOrGetTest fresh (srv w) (server d) UDP All of
             (created, isNew, s1) \<Rightarrow>
               let tests1 = (case created of
                               None \<Rightarrow> tests w
                             | Some p \<Rightarrow> (tests w)(server d \<mapsto> p))
               in if isNew \<and> handshakeWithClient (decoded d) (writeFails d) \<noteq> None
                  then Return \<lparr>tests = tests1, srv = s1\<rparr>
                  else Continue \<lparr>tests = tests1, srv = countDatagram test d s1\<rparr>)
        else Continue (w\<lparr>srv := countDatagram test d (srv w)\<rparr>))"

text \<open>The worker's loop over the datagrams that arrive, until it ends.\<close>

fun srvrRunUDPPacketHandler :: "ethrTest \<Rightarrow> Worker \<Rightarrow> Datagram list \<Rightarrow> Worker" where
  "srvrRunUDPPacketHandler fresh w [] = w"
| "srvrRunUDPPacketHandler fresh w (d # ds) =
     (case srvrRunUDPPacket fresh w d of
        Return w' \<Rightarrow> w'
      | Continue w' \<Rightarrow> srvrRunUDPPacketHandler fresh w' ds)"

text \<open>A worker that starts, a new Test, and two datagrams from one sender.\<close>

definition wWorker :: Worker where
  "wWorker = \<lparr>tests = Map.empty,
              srv = \<lparr>registry = Map.empty, heap = Map.empty, nextPtr = 0\<rparr>\<rparr>"

definition wFresh :: ethrTest where
  "wFresh = \<lparr>remoteIP = ''10.0.0.5'', bw = 0, cps = 0, pps = 0, latency = 0,
             lastAccess = 0, isActive = True\<rparr>"

definition wFirst :: Datagram where
  "wFirst = \<lparr>readFails = False, n_read = 100, server = ''10.0.0.5'', now = 1000,
             decoded = Some EthrSyn, writeFails = False\<rparr>"

definition wSecond :: Datagram where
  "wSecond = \<lparr>readFails = False, n_read = 50, server = ''10.0.0.5'', now = 2000,
             decoded = None, writeFails = False\<rparr>"

text \<open>The Test of a sender, as the worker's map and the store have it.\<close>

definition testOf :: "Worker \<Rightarrow> string \<Rightarrow> ethrTest option" where
  "testOf w remote = (case tests w remote of None \<Rightarrow> None | Some p \<Rightarrow> heap (srv w) p)"

section \<open>Properties of calcHopData\<close>

lemma calcHopData_fields:
  "Addr (calcHopData h p e) = p"
  "Last (calcHopData h p e) = e"
  "Best (calcHopData h p e) = (if dless e (Best h) then e else Best h)"
  "Worst (calcHopData h p e) = (if dless (Worst h) e then e else Worst h)"
  "Total (calcHopData h p e) = Total h + e"
  "Rcvd (calcHopData h p e) = Rcvd h + 1"
  "Sent (calcHopData h p e) = Sent h"
  "Lost (calcHopData h p e) = Lost h"
  by (simp_all add: calcHopData_def Let_def)

lemma aggregate_calcHopData:
  "aggregate (calcHopData h p e) = aggStep e (aggregate h)"
  by (simp add: aggregate_def aggStep_def calcHopData_fields)

lemma word_eq_sint_D: "sint (a :: 'a::len word) = sint b \<Longrightarrow> a = b"
  by (simp add: signed_word_eqI)

lemma aggStep_commute:
  "aggStep e1 (aggStep e2 a) = aggStep e2 (aggStep e1 a)"
  by (cases a) (auto simp: aggStep_def dless_def ac_simps dest: word_eq_sint_D)

lemma aggregate_calcAll:
  "aggregate (calcAll h rs) = fold aggStep (map snd rs) (aggregate h)"
  by (induction rs arbitrary: h) (simp_all add: aggregate_calcHopData)

lemma fold_aggStep_mset:
  "mset es = mset es' \<Longrightarrow> fold aggStep es a = fold aggStep es' a"
proof -
  assume m: "mset es = mset es'"
  have "fold aggStep es = fold aggStep es'"
    by (rule fold_multiset_equiv [OF _ m]) (simp add: fun_eq_iff aggStep_commute)
  then show ?thesis by (rule fun_cong)
qed

text \<open>
  Claim C3. For a zero-initialised HopData and a first successful probe with elapsed
  time \<open>e > 0\<close>, \<open>best\<close> should become \<open>e\<close>. calcHopData lowers \<open>Best\<close> only
  when \<open>Best > elapsed\<close>, and the zero value is not above any positive duration: from
  a zero-initialised HopData \<open>Best\<close> is 0 after every probe with a positive elapsed
  time, here after one probe of 5 ms and after probes of 5 ms and 3 ms.
\<close>

theorem calcHopData_best_zero_init:
  "Best (calcHopData (zeroHopData :: 32 word HopData) peerAddr e) = (if sint e < 0 then e else 0)
   \<and> Best (calcHopData (zeroHopData :: 32 word HopData) ''10.0.0.1'' 5000000) = 0
   \<and> Best (calcAll (zeroHopData :: 32 word HopData)
        [(''10.0.0.1'', 5000000), (''10.0.0.1'', 3000000)]) = 0"
  by (simp add: calcHopData_fields zeroHopData_def dless_def)

text \<open>
  Claim C8. Folding calcHopData over the probe results \<open>(peer, elapsed)\<close> of a finite
  multiset, from the same initial HopData, gives the same \<open>best\<close>, \<open>worst\<close>,
  \<open>total\<close> and \<open>rcvd\<close> whatever the order of the results.
\<close>

theorem calcHopData_permutation_invariant:
  "mset rs = mset rs' \<Longrightarrow> aggregate (calcAll h rs) = aggregate (calcAll h rs')"
proof -
  assume "mset rs = mset rs'"
  then have "mset (map snd rs) = mset (map snd rs')"
    by (metis mset_map)
  then show ?thesis
    by (simp add: aggregate_calcAll fold_aggStep_mset)
qed

theorem calcHopData_permutation_invariant_witness:
  "mset [(''10.0.0.1'', 5 :: Duration), (''10.0.0.2'', 3), (''10.0.0.1'', 9)]
     = mset [(''10.0.0.1'', 9), (''10.0.0.1'', 5), (''10.0.0.2'', 3)]
   \<and> aggregate (calcAll (zeroHopData\<lparr>Best := 7\<rparr> :: 32 word HopData)
        [(''10.0.0.1'', 5), (''10.0.0.2'', 3), (''10.0.0.1'', 9)])
     = aggregate (calcAll (zeroHopData\<lparr>Best := 7\<rparr>)
        [(''10.0.0.1'', 9), (''10.0.0.1'', 5), (''10.0.0.2'', 3)])
   \<and> aggregate (calcAll (zeroHopData\<lparr>Best := 7\<rparr> :: 32 word HopData)
        [(''10.0.0.1'', 5), (''10.0.0.2'', 3), (''10.0.0.1'', 9)]) = (3, 9, 17, 3)"
proof -
  have m: "mset [(''10.0.0.1'', 5 :: Duration), (''10.0.0.2'', 3), (''10.0.0.1'', 9)]
     = mset [(''10.0.0.1'', 9), (''10.0.0.1'', 5), (''10.0.0.2'', 3)]"
    by simp
  have v: "aggregate (calcAll (zeroHopData\<lparr>Best := 7\<rparr> :: 32 word HopData)
        [(''10.0.0.1'', 5), (''10.0.0.2'', 3), (''10.0.0.1'', 9)]) = (3, 9, 17, 3)"
    by (simp add: aggregate_def calcHopData_fields zeroHopData_def dless_def)
  from calcHopData_permutation_invariant [OF m, of "zeroHopData\<lparr>Best := 7\<rparr> :: 32 word HopData"]
  have "aggregate (calcAll (zeroHopData\<lparr>Best := 7\<rparr> :: 32 word HopData)
        [(''10.0.0.1'', 5), (''10.0.0.2'', 3), (''10.0.0.1'', 9)])
     = aggregate (calcAll (zeroHopData\<lparr>Best := 7\<rparr>)
        [(''10.0.0.1'', 9), (''10.0.0.1'', 5), (''10.0.0.2'', 3)])" .
  with m v show ?thesis by (intro conjI)
qed

section \<open>Properties of the probe\<close>

lemma indexFrom_found:
  "indexFrom s sep i = j \<Longrightarrow> j \<noteq> - 1 \<Longrightarrow>
   \<exists>d. j = i + int d \<and> d \<le> length s \<and> take (length sep) (drop d s) = sep"
proof (induction s arbitrary: i)
  case Nil
  then show ?case by (simp split: if_splits)
next
  case (Cons x xs)
  show ?case
  proof (cases "take (length sep) (x # xs) = sep")
    case True
    with Cons.prems show ?thesis by (intro exI [of _ 0]) simp
  next
    case False
    with Cons.prems have r: "indexFrom xs sep (i + 1) = j" by simp
    from Cons.IH [OF r Cons.prems(2)] obtain d where
      d: "j = i + 1 + int d" "d \<le> length xs" "take (length sep) (drop d xs) = sep"
      by blast
    then show ?thesis
      by (intro exI [of _ "Suc d"]) simp
  qed
qed

lemma bytes_Index_pos:
  assumes "0 < bytes_Index s sep"
  shows "\<exists>d. 0 < d \<and> bytes_Index s sep = int d \<and> d \<le> length s \<and> take (length sep) (drop d s) = sep"
proof -
  from assms have "bytes_Index s sep \<noteq> - 1" by simp
  from indexFrom_found [OF refl this [unfolded bytes_Index_def]]
  obtain d where d: "indexFrom s sep 0 = 0 + int d" "d \<le> length s" "take (length sep) (drop d s) = sep"
    by blast
  with assms show ?thesis by (intro exI [of _ d]) (simp add: bytes_Index_def)
qed

lemma PutUint16_bigEndian:
  "length (PutUint16 v) = 2 \<and> uint (PutUint16 v ! 0) * 256 + uint (PutUint16 v ! 1) = uint v"
  apply (simp add: PutUint16_def)
  apply transfer
  apply (simp add: take_bit_eq_mod drop_bit_eq_div)
  done

lemma localPortNum_uint:
  "uint (localPortNum nt hop) =
     ((if LocalPort nt \<noteq> 0 then uint (LocalPort nt) else 8888) + hop) mod 2 ^ 16"
  by (simp add: localPortNum_def uint_word_ariths uint_word_of_int mod_simps)

lemma icmpReceiver_accepts:
  assumes r: "icmpReceiver rcv b k = Some j"
  shows "k \<le> j \<and> accepts b (rcv j)"
proof (rule icmpReceiver.raw_induct [where P = "\<lambda>rcv b k j. k \<le> j \<and> accepts b (rcv j)", OF _ r])
  fix f :: "(nat \<Rightarrow> icmpReply) \<Rightarrow> byte list \<Rightarrow> nat \<Rightarrow> nat option" and rcv b k j
  assume IH: "\<And>rcv b k j. f rcv b k = Some j \<Longrightarrow> k \<le> j \<and> accepts b (rcv j)"
    and eq: "(if accepts b (rcv k) then Some k else f rcv b (Suc k)) = Some j"
  show "k \<le> j \<and> accepts b (rcv j)"
  proof (cases "accepts b (rcv k)")
    case True
    with eq show ?thesis by simp
  next
    case False
    with eq have "f rcv b (Suc k) = Some j" by simp
    from IH [OF this] show ?thesis by simp
  qed
qed

lemma icmpReceiver_terminates:
  "accepts b (rcv (k + d)) \<Longrightarrow> \<exists>j. icmpReceiver rcv b k = Some j"
proof (induction d arbitrary: k)
  case 0
  then show ?case by (simp add: icmpReceiver.simps)
next
  case (Suc d)
  then have "accepts b (rcv (Suc k + d))" by simp
  from Suc.IH [OF this] obtain j where "icmpReceiver rcv b (Suc k) = Some j" by blast
  then show ?case by (simp add: icmpReceiver.simps [of rcv b k])
qed

text \<open>
  The receiver returns exactly when some reply is accepted, and a probe returns
  exactly when it stops at the ICMP listener, its dial succeeds, or some reply is
  accepted; otherwise it waits for ever with \<open>Sent\<close> already incremented.
\<close>

lemma icmpReceiver_returns_iff:
  "(\<exists>j. icmpReceiver rcv b 0 = Some j) \<longleftrightarrow> (\<exists>k. accepts b (rcv k))"
  using icmpReceiver_accepts [of rcv b 0] icmpReceiver_terminates [of b rcv 0]
  by auto

lemma probeHop_returns_iff:
  "(\<exists>r. probeHop nt test env hop hopIP hopData = Some r) \<longleftrightarrow>
     icmpNewConnFails env \<or> \<not> dialFails env (localPortNum nt hop) hop
     \<or> (\<exists>k. accepts (fingerprint nt test hop) (received env k))"
proof -
  have "(\<exists>r. probeHop nt test env hop hopIP hopData = Some r) \<longleftrightarrow>
     icmpNewConnFails env \<or> \<not> dialFails env (localPortNum nt hop) hop
     \<or> (\<exists>j. icmpReceiver (received env) (fingerprint nt test hop) 0 = Some j)"
    by (auto simp: probeHop_def probeWait_def Let_def split: option.splits)
  then show ?thesis
    by (simp only: icmpReceiver_returns_iff)
qed

lemma fingerprint_length: "length (fingerprint nt test hop) = 4"
  by (simp add: fingerprint_def PutUint16_def)

lemma parseDigits_le: "n \<le> 65535 \<Longrightarrow> parseDigits s n \<le> 65535"
  by (induction s arbitrary: n) auto

lemma ParseUint16_le: "uint (ParseUint16 s) \<le> 65535"
proof -
  have "parseDigits s 0 \<le> 65535" by (rule parseDigits_le) simp
  then have "uint (of_nat (parseDigits s 0) :: 64 word) \<le> 65535"
    by (simp add: uint_nat unat_of_nat)
  then show ?thesis by (simp add: ParseUint16_def)
qed

lemma ParseUint16_uint: "uint (ucast (ParseUint16 s) :: 16 word) = uint (ParseUint16 s)"
proof -
  have "uint (ucast w :: 16 word) = uint w mod 2 ^ 16" for w :: "64 word"
    by transfer (simp add: take_bit_eq_mod)
  with ParseUint16_le [of s] show ?thesis
    by simp
qed

lemma fingerprint_bigEndian:
  "uint (fingerprint nt test hop ! 0) * 256 + uint (fingerprint nt test hop ! 1) = uint (localPortNum nt hop)"
  "uint (fingerprint nt test hop ! 2) * 256 + uint (fingerprint nt test hop ! 3) = uint (ucast (ParseUint16 (RemotePort test)) :: 16 word)"
  using PutUint16_bigEndian [of "localPortNum nt hop"]
        PutUint16_bigEndian [of "ucast (ParseUint16 (RemotePort test))"]
  by (simp_all add: fingerprint_def nth_append)

lemma accepts_occurs:
  assumes "accepts (fingerprint nt test hop) m"
  shows "(msgType m = ICMPv4TimeExceeded \<or> msgType m = ICMPv6TimeExceeded)
     \<and> (\<exists>d. 0 < d \<and> bytes_Index (body m) (fingerprint nt test hop) = int d
           \<and> d + 4 \<le> length (body m) \<and> take 4 (drop d (body m)) = fingerprint nt test hop)"
proof -
  let ?fp = "fingerprint nt test hop"
  from assms have t: "msgType m = ICMPv4TimeExceeded \<or> msgType m = ICMPv6TimeExceeded"
    and p: "0 < bytes_Index (body m) ?fp"
    by (auto simp: accepts_def fingerprint_length split: if_splits)
  from bytes_Index_pos [OF p] obtain d where
    d: "0 < d" "bytes_Index (body m) ?fp = int d" "d \<le> length (body m)"
       "take (length ?fp) (drop d (body m)) = ?fp" by blast
  from d(4) have tk: "take 4 (drop d (body m)) = ?fp" by (simp add: fingerprint_length)
  then have "length (take 4 (drop d (body m))) = 4" by (simp add: fingerprint_length)
  then have "d + 4 \<le> length (body m)" by simp
  with t d tk show ?thesis by blast
qed

text \<open>The concrete network, evaluated.\<close>

lemma wFingerprint1: "fingerprint wNet wTest 1 = [34, 185, 34, 184]"
  by (simp add: fingerprint_def wNet_def wTest_def localPortNum_def PutUint16_def
      ParseUint16_def isDigit_def)

lemma wFingerprint2: "fingerprint wNet wTest 2 = [34, 186, 34, 184]"
  by (simp add: fingerprint_def wNet_def wTest_def localPortNum_def PutUint16_def
      ParseUint16_def isDigit_def)

lemma wReceiver1: "icmpReceiver (received (wEnv [34, 185, 34, 184] p)) [34, 185, 34, 184] 0 = Some 1"
  by (simp add: icmpReceiver.simps wEnv_def wReply_def wReplyMiss_def accepts_def bytes_Index_def)

lemma wReceiver2: "icmpReceiver (received (wEnv [34, 186, 34, 184] p)) [34, 186, 34, 184] 0 = Some 1"
  by (simp add: icmpReceiver.simps wEnv_def wReply_def wReplyMiss_def accepts_def bytes_Index_def)

lemma wProbeWait1: "probeWait wNet wTest (wEnv [34, 185, 34, 184] p) 1 = Some (p, 5001000, False)"
  by (simp add: probeWait_def wFingerprint1 wReceiver1) (simp add: wEnv_def wReply_def)

lemma wProbeWait2: "probeWait wNet wTest (wEnv [34, 186, 34, 184] p) 2 = Some (p, 5001000, False)"
  by (simp add: probeWait_def wFingerprint2 wReceiver2) (simp add: wEnv_def wReply_def)

lemma wProbeWait3: "probeWait wNet wTest wEnvLast hop = Some (''10.0.0.9'', 9001000, True)"
  by (simp add: probeWait_def wEnvLast_def wTest_def)

lemma wProbeHop1:
  "probeHop wNet wTest (wEnv [34, 185, 34, 184] ''10.0.0.1'') 1 [] zeroHopData
   = Some (None, False, wHop1)"
  apply (simp add: probeHop_def wProbeWait1 isLost_def Let_def)
  apply (simp add: wEnv_def Sub_def maxDuration_def minDuration_def calcHopData_def
      zeroHopData_def dless_def wHop1_def)
  done

lemma wProbeHop2:
  "probeHop wNet wTest (wEnv [34, 186, 34, 184] ''10.0.0.2'') 2 [] zeroHopData
   = Some (None, False, wHop2)"
  apply (simp add: probeHop_def wProbeWait2 isLost_def Let_def)
  apply (simp add: wEnv_def Sub_def maxDuration_def minDuration_def calcHopData_def
      zeroHopData_def dless_def wHop2_def)
  done

lemma wProbeHop3:
  "probeHop wNet wTest wEnvLast 3 [] zeroHopData = Some (None, True, wHop3)"
  apply (simp add: probeHop_def wProbeWait3 isLost_def Let_def)
  apply (simp add: wEnvLast_def Sub_def maxDuration_def minDuration_def calcHopData_def
      zeroHopData_def dless_def wHop3_def)
  done

lemma wNames:
  "lookupHopName wLookup ''10.0.0.1'' = (''gw.example'', ''gw.example'')"
  "lookupHopName wLookup ''10.0.0.2'' = ([], [])"
  "lookupHopName wLookup ''10.0.0.9'' = ([], [])"
  by (simp_all add: lookupHopName_def wLookup_def Let_def)

text \<open>
  Claim C9. A probe at TTL \<open>hop\<close> uses the local port (the configured one if nonzero,
  else 8888) plus \<open>hop\<close>, modulo \<open>2 ^ 16\<close>; its fingerprint is four bytes, the
  big-endian local port followed by the big-endian remote port; and when the probe
  returns through the ICMP receiver (the dial failed), the receiver accepted a
  TimeExceeded message whose quoted packet holds the fingerprint at an index greater
  than 0, the index \<open>bytes.Index\<close> reports.
\<close>

theorem probeHop_fingerprint_match:
  fixes hopData :: "('c::{plus,one}) HopData"
  assumes "\<not> icmpNewConnFails env" and "dialFails env (localPortNum nt hop) hop"
    and "probeHop nt test env hop hopIP hopData = Some (err, isLast, hopData')"
  shows "uint (localPortNum nt hop)
           = ((if LocalPort nt \<noteq> 0 then uint (LocalPort nt) else 8888) + hop) mod 2 ^ 16
     \<and> length (fingerprint nt test hop) = 4
     \<and> uint (fingerprint nt test hop ! 0) * 256 + uint (fingerprint nt test hop ! 1)
           = uint (localPortNum nt hop)
     \<and> uint (fingerprint nt test hop ! 2) * 256 + uint (fingerprint nt test hop ! 3)
           = uint (ParseUint16 (RemotePort test))
     \<and> (\<exists>k d. icmpReceiver (received env) (fingerprint nt test hop) 0 = Some k
           \<and> (msgType (received env k) = ICMPv4TimeExceeded
                \<or> msgType (received env k) = ICMPv6TimeExceeded)
           \<and> 0 < d
           \<and> bytes_Index (body (received env k)) (fingerprint nt test hop) = int d
           \<and> d + 4 \<le> length (body (received env k))
           \<and> take 4 (drop d (body (received env k))) = fingerprint nt test hop)"
proof -
  from assms obtain k where k: "icmpReceiver (received env) (fingerprint nt test hop) 0 = Some k"
    by (auto simp: probeHop_def probeWait_def Let_def split: option.splits if_splits)
  from icmpReceiver_accepts [OF k] have "accepts (fingerprint nt test hop) (received env k)"
    by simp
  from accepts_occurs [OF this] k
  have "\<exists>k d. icmpReceiver (received env) (fingerprint nt test hop) 0 = Some k
           \<and> (msgType (received env k) = ICMPv4TimeExceeded
                \<or> msgType (received env k) = ICMPv6TimeExceeded)
           \<and> 0 < d
           \<and> bytes_Index (body (received env k)) (fingerprint nt test hop) = int d
           \<and> d + 4 \<le> length (body (received env k))
           \<and> take 4 (drop d (body (received env k))) = fingerprint nt test hop"
    by blast
  moreover have "uint (fingerprint nt test hop ! 2) * 256 + uint (fingerprint nt test hop ! 3)
           = uint (ParseUint16 (RemotePort test))"
    using fingerprint_bigEndian(2) [of nt test hop] by (simp only: ParseUint16_uint)
  moreover note localPortNum_uint [of nt hop] fingerprint_length [of nt test hop]
    fingerprint_bigEndian(1) [of nt test hop]
  ultimately show ?thesis
    by (intro conjI) assumption+
qed

theorem probeHop_fingerprint_match_witness:
  "\<not> icmpNewConnFails (wEnv [34, 185, 34, 184] ''10.0.0.1'')
   \<and> dialFails (wEnv [34, 185, 34, 184] ''10.0.0.1'') (localPortNum wNet 1) 1
   \<and> probeHop wNet wTest (wEnv [34, 185, 34, 184] ''10.0.0.1'') 1 [] zeroHopData
       = Some (None, False, wHop1)
   \<and> uint (localPortNum wNet 1) = 8889
   \<and> fingerprint wNet wTest 1 = [34, 185, 34, 184]
   \<and> (\<exists>k d. icmpReceiver (received (wEnv [34, 185, 34, 184] ''10.0.0.1'')) (fingerprint wNet wTest 1) 0 = Some k
           \<and> 0 < d
           \<and> take 4 (drop d (body (received (wEnv [34, 185, 34, 184] ''10.0.0.1'') k))) = fingerprint wNet wTest 1)"
proof -
  have a: "\<not> icmpNewConnFails (wEnv [34, 185, 34, 184] ''10.0.0.1'')"
    and b: "dialFails (wEnv [34, 185, 34, 184] ''10.0.0.1'') (localPortNum wNet 1) 1"
    by (simp_all add: wEnv_def)
  have p: "uint (localPortNum wNet 1) = 8889"
    by (simp add: localPortNum_def wNet_def)
  from probeHop_fingerprint_match [OF a b wProbeHop1]
  have "\<exists>k d. icmpReceiver (received (wEnv [34, 185, 34, 184] ''10.0.0.1'')) (fingerprint wNet wTest 1) 0 = Some k
           \<and> 0 < d
           \<and> take 4 (drop d (body (received (wEnv [34, 185, 34, 184] ''10.0.0.1'') k))) = fingerprint wNet wTest 1"
    by blast
  with a b p wProbeHop1 wFingerprint1 show ?thesis by blast
qed

text \<open>
  A call of probeHop that gets past the creation of the ICMP listener and returns has
  incremented \<open>Sent\<close> by one and exactly one of \<open>Rcvd\<close> (through calcHopData) and
  \<open>Lost\<close> (with the error, when the peer address is empty or disagrees with a
  non-empty expected peer). The number of probes in flight, \<open>Sent - (Rcvd + Lost)\<close>,
  is unchanged by such a call: \<open>Sent = Rcvd + Lost\<close> is preserved, and so is
  \<open>Rcvd + Lost \<le> Sent\<close> on the counters' values as long as \<open>Sent\<close> does not wrap
  around.
\<close>

lemma probeHop_returned_counters:
  fixes hopData :: "'a::len word HopData"
  assumes "\<not> icmpNewConnFails env"
    and "probeHop nt test env hop hopIP hopData = Some (err, isLast, hopData')"
  shows "Sent hopData' = Sent hopData + 1
     \<and> (\<exists>peerAddr endTime. probeWait nt test env hop = Some (peerAddr, endTime, isLast)
          \<and> (if peerAddr = [] \<or> (hopIP \<noteq> [] \<and> peerAddr \<noteq> hopIP)
              then err = Some ErrHopFailed
                 \<and> Lost hopData' = Lost hopData + 1 \<and> Rcvd hopData' = Rcvd hopData
              else err = None
                 \<and> hopData' = calcHopData (hopData\<lparr>Sent := Sent hopData + 1\<rparr>) peerAddr
                                (Sub endTime (startTime env))
                 \<and> Rcvd hopData' = Rcvd hopData + 1 \<and> Lost hopData' = Lost hopData))
     \<and> Sent hopData' - (Rcvd hopData' + Lost hopData') = Sent hopData - (Rcvd hopData + Lost hopData)
     \<and> (Sent hopData = Rcvd hopData + Lost hopData
          \<longrightarrow> Sent hopData' = Rcvd hopData' + Lost hopData')
     \<and> (unat (Sent hopData) + 1 < 2 ^ LENGTH('a)
            \<and> unat (Rcvd hopData) + unat (Lost hopData) \<le> unat (Sent hopData)
          \<longrightarrow> unat (Rcvd hopData') + unat (Lost hopData') \<le> unat (Sent hopData')
            \<and> unat (Sent hopData') - (unat (Rcvd hopData') + unat (Lost hopData'))
                = unat (Sent hopData) - (unat (Rcvd hopData) + unat (Lost hopData)))"
proof -
  from assms obtain peerAddr endTime where
    w: "probeWait nt test env hop = Some (peerAddr, endTime, isLast)"
    by (auto simp: probeHop_def Let_def split: option.splits if_splits)
  let ?sent = "hopData\<lparr>Sent := Sent hopData + 1\<rparr>"
  show ?thesis
  proof (cases "isLost peerAddr hopIP")
    case True
    with assms w have r: "err = Some ErrHopFailed" "hopData' = ?sent\<lparr>Lost := Lost ?sent + 1\<rparr>"
      by (auto simp: probeHop_def Let_def)
    have f: "Sent hopData' = Sent hopData + 1" "Lost hopData' = Lost hopData + 1"
      "Rcvd hopData' = Rcvd hopData"
      by (simp_all add: r)
    have n: "unat (Rcvd hopData') + unat (Lost hopData') \<le> unat (Sent hopData')
        \<and> unat (Sent hopData') - (unat (Rcvd hopData') + unat (Lost hopData'))
                = unat (Sent hopData) - (unat (Rcvd hopData) + unat (Lost hopData))"
      if "unat (Sent hopData) + 1 < 2 ^ LENGTH('a)"
        "unat (Rcvd hopData) + unat (Lost hopData) \<le> unat (Sent hopData)"
    proof -
      have "unat (Sent hopData + 1) = unat (Sent hopData) + 1"
        using that(1) by (simp add: unat_word_ariths)
      moreover have "unat (Lost hopData + 1) = unat (Lost hopData) + 1"
        using that by (simp add: unat_word_ariths)
      ultimately show ?thesis using that by (simp add: f)
    qed
    have c2: "\<exists>peerAddr endTime. probeWait nt test env hop = Some (peerAddr, endTime, isLast)
          \<and> (if peerAddr = [] \<or> (hopIP \<noteq> [] \<and> peerAddr \<noteq> hopIP)
              then err = Some ErrHopFailed
                 \<and> Lost hopData' = Lost hopData + 1 \<and> Rcvd hopData' = Rcvd hopData
              else err = None
                 \<and> hopData' = calcHopData (hopData\<lparr>Sent := Sent hopData + 1\<rparr>) peerAddr
                                (Sub endTime (startTime env))
                 \<and> Rcvd hopData' = Rcvd hopData + 1 \<and> Lost hopData' = Lost hopData)"
      using w True [unfolded isLost_def] r(1) f by (intro exI [of _ peerAddr] exI [of _ endTime]) simp
    have c3: "Sent hopData' - (Rcvd hopData' + Lost hopData') = Sent hopData - (Rcvd hopData + Lost hopData)"
      by (simp only: f) simp
    have c4: "Sent hopData = Rcvd hopData + Lost hopData
          \<longrightarrow> Sent hopData' = Rcvd hopData' + Lost hopData'"
      by (simp only: f) simp
    have c5: "unat (Sent hopData) + 1 < 2 ^ LENGTH('a)
            \<and> unat (Rcvd hopData) + unat (Lost hopData) \<le> unat (Sent hopData)
          \<longrightarrow> unat (Rcvd hopData') + unat (Lost hopData') \<le> unat (Sent hopData')
            \<and> unat (Sent hopData') - (unat (Rcvd hopData') + unat (Lost hopData'))
                = unat (Sent hopData) - (unat (Rcvd hopData) + unat (Lost hopData))"
      using n by blast
    from f(1) c2 c3 c4 c5 show ?thesis by (intro conjI) assumption+
  next
    case False
    with assms w have r: "err = None"
      "hopData' = calcHopData ?sent peerAddr (Sub endTime (startTime env))"
      by (auto simp: probeHop_def Let_def)
    have f: "Sent hopData' = Sent hopData + 1" "Lost hopData' = Lost hopData"
      "Rcvd hopData' = Rcvd hopData + 1"
      by (simp_all add: r calcHopData_fields)
    have n: "unat (Rcvd hopData') + unat (Lost hopData') \<le> unat (Sent hopData')
        \<and> unat (Sent hopData') - (unat (Rcvd hopData') + unat (Lost hopData'))
                = unat (Sent hopData) - (unat (Rcvd hopData) + unat (Lost hopData))"
      if "unat (Sent hopData) + 1 < 2 ^ LENGTH('a)"
        "unat (Rcvd hopData) + unat (Lost hopData) \<le> unat (Sent hopData)"
    proof -
      have "unat (Sent hopData + 1) = unat (Sent hopData) + 1"
        using that(1) by (simp add: unat_word_ariths)
      moreover have "unat (Rcvd hopData + 1) = unat (Rcvd hopData) + 1"
        using that by (simp add: unat_word_ariths)
      ultimately show ?thesis using that by (simp add: f)
    qed
    have c2: "\<exists>peerAddr endTime. probeWait nt test env hop = Some (peerAddr, endTime, isLast)
          \<and> (if peerAddr = [] \<or> (hopIP \<noteq> [] \<and> peerAddr \<noteq> hopIP)
              then err = Some ErrHopFailed
                 \<and> Lost hopData' = Lost hopData + 1 \<and> Rcvd hopData' = Rcvd hopData
              else err = None
                 \<and> hopData' = calcHopData (hopData\<lparr>Sent := Sent hopData + 1\<rparr>) peerAddr
                                (Sub endTime (startTime env))
                 \<and> Rcvd hopData' = Rcvd hopData + 1 \<and> Lost hopData' = Lost hopData)"
      using w False [unfolded isLost_def] r f by (intro exI [of _ peerAddr] exI [of _ endTime]) simp
    have c3: "Sent hopData' - (Rcvd hopData' + Lost hopData') = Sent hopData - (Rcvd hopData + Lost hopData)"
      by (simp only: f) simp
    have c4: "Sent hopData = Rcvd hopData + Lost hopData
          \<longrightarrow> Sent hopData' = Rcvd hopData' + Lost hopData'"
      by (simp only: f) simp
    have c5: "unat (Sent hopData) + 1 < 2 ^ LENGTH('a)
            \<and> unat (Rcvd hopData) + unat (Lost hopData) \<le> unat (Sent hopData)
          \<longrightarrow> unat (Rcvd hopData') + unat (Lost hopData') \<le> unat (Sent hopData')
            \<and> unat (Sent hopData') - (unat (Rcvd hopData') + unat (Lost hopData'))
                = unat (Sent hopData) - (unat (Rcvd hopData) + unat (Lost hopData))"
      using n by blast
    from f(1) c2 c3 c4 c5 show ?thesis by (intro conjI) assumption+
  qed
qed

lemma icmpReceiver_no_match:
  assumes "\<And>k. \<not> accepts b (rcv k)"
  shows "icmpReceiver rcv b k0 = None"
proof (cases "icmpReceiver rcv b k0")
  case None
  then show ?thesis .
next
  case (Some j)
  from icmpReceiver_accepts [OF Some] assms show ?thesis by simp
qed

lemma probeHop_state_on_return:
  "probeHop nt test env hop hopIP hopData = Some (err, isLast, hopData')
   \<Longrightarrow> probeHopState nt test env hop hopIP hopData = hopData'"
  by (auto simp: probeHop_def probeHopState_def Let_def split: option.splits if_splits)

lemma probeHop_no_match_blocks:
  assumes "\<not> icmpNewConnFails env" and "dialFails env (localPortNum nt hop) hop"
    and "\<And>k. \<not> accepts (fingerprint nt test hop) (received env k)"
  shows "probeHop nt test env hop hopIP hopData = None"
    and "probeHopState nt test env hop hopIP hopData = hopData\<lparr>Sent := Sent hopData + 1\<rparr>"
proof -
  have "icmpReceiver (received env) (fingerprint nt test hop) 0 = None"
    by (rule icmpReceiver_no_match) (rule assms(3))
  with assms(2) have w: "probeWait nt test env hop = None"
    by (simp add: probeWait_def)
  from w assms(1) show "probeHop nt test env hop hopIP hopData = None"
    by (simp add: probeHop_def Let_def)
  from w assms(1) show "probeHopState nt test env hop hopIP hopData = hopData\<lparr>Sent := Sent hopData + 1\<rparr>"
    by (simp add: probeHopState_def Let_def)
qed

lemma wMute_no_match: "\<not> accepts b (received wEnvMute k)"
  by (simp add: wEnvMute_def wReplyMiss_def accepts_def)

lemma wProbeHopMismatch:
  "probeHop wNet wTest (wEnv [34, 185, 34, 184] ''10.0.0.7'') 1 ''10.0.0.1'' (zeroHopData :: 32 word HopData)
   = Some (Some ErrHopFailed, False, zeroHopData\<lparr>Sent := 1, Lost := 1\<rparr>)"
  apply (simp add: probeHop_def wProbeWait1 isLost_def Let_def)
  apply (simp add: zeroHopData_def wEnv_def)
  done

text \<open>
  Claim C4. Every call of probeHop that gets past the creation of the ICMP listener
  should add one to \<open>Sent\<close> and then one to exactly one of \<open>Rcvd\<close> and \<open>Lost\<close>,
  to \<open>Lost\<close> with the error when no peer matched. The receiver's loop ends on a
  match only, so a probe whose dial fails and that no reply ever matches waits for
  ever at line 165: against the router that never answers, probeHop at TTL 2 does
  not return, and the HopData it leaves has \<open>Sent = 1\<close>, \<open>Rcvd = 0\<close> and
  \<open>Lost = 0\<close>. A probe that returns is counted: as lost when the peer found is not
  the expected one, as received otherwise.
\<close>

theorem probeHop_no_match_never_lost:
  "\<not> icmpNewConnFails wEnvMute
   \<and> probeHop wNet wTest wEnvMute 2 [] (zeroHopData :: 32 word HopData) = None
   \<and> probeHopState wNet wTest wEnvMute 2 [] (zeroHopData :: 32 word HopData)
       = zeroHopData\<lparr>Sent := 1\<rparr>
   \<and> Lost (probeHopState wNet wTest wEnvMute 2 [] (zeroHopData :: 32 word HopData)) = 0
   \<and> Rcvd (probeHopState wNet wTest wEnvMute 2 [] (zeroHopData :: 32 word HopData)) = 0
   \<and> probeHop wNet wTest (wEnv [34, 185, 34, 184] ''10.0.0.7'') 1 ''10.0.0.1''
         (zeroHopData :: 32 word HopData)
       = Some (Some ErrHopFailed, False, zeroHopData\<lparr>Sent := 1, Lost := 1\<rparr>)
   \<and> probeHop wNet wTest (wEnv [34, 185, 34, 184] ''10.0.0.1'') 1 [] zeroHopData
       = Some (None, False, wHop1)"
proof -
  have a: "\<not> icmpNewConnFails wEnvMute" and d: "dialFails wEnvMute (localPortNum wNet 2) 2"
    by (simp_all add: wEnvMute_def)
  have b: "probeHop wNet wTest wEnvMute 2 [] (zeroHopData :: 32 word HopData) = None"
    by (rule probeHop_no_match_blocks(1) [OF a d]) (rule wMute_no_match)
  have c: "probeHopState wNet wTest wEnvMute 2 [] (zeroHopData :: 32 word HopData)
       = zeroHopData\<lparr>Sent := 1\<rparr>"
    by (simp add: probeHop_no_match_blocks(2) [OF a d wMute_no_match]) (simp add: zeroHopData_def)
  have e: "Lost (zeroHopData\<lparr>Sent := 1\<rparr> :: 32 word HopData) = 0"
    "Rcvd (zeroHopData\<lparr>Sent := 1\<rparr> :: 32 word HopData) = 0"
    by (simp_all add: zeroHopData_def)
  from a b c e wProbeHopMismatch wProbeHop1 show ?thesis
    by (simp only: simp_thms)
qed

text \<open>
  Claim C2. When no probe of TTL 1 to maxHops reaches the destination, discoverHops
  should return the error with the hops gathered in the loop. It returns the error
  with a nil slice: on the network whose two routers answer and whose destination
  never does, the result for \<open>maxHops = 2\<close> is the empty list, and so is the body
  that TestTraceRoute reports; the same two routers are in the result when a third
  probe reaches the destination.
\<close>

theorem discoverHops_exhausted_returns_nil:
  "discoverHops wNet wTest wLookup wEnvsSilent 2
     = Some (Inr ([] :: 32 word HopData list, Some ErrNotExist))
   \<and> TestTraceRoute wNet wTest wLookup wEnvsSilent 2
     = Some (Inr \<lparr>Success = False, Error = Some ErrNotResponding, Body = ([] :: 32 word HopData list)\<rparr>)
   \<and> discoverHops wNet wTest wLookup wEnvs 3
     = Some (Inr ([wHop1\<lparr>Name := ''gw.example'', FullName := ''gw.example''\<rparr>, wHop2, wHop3], None))"
proof -
  have two: "(2::nat) = Suc (Suc 0)" and three: "(3::nat) = Suc (Suc (Suc 0))" by simp_all
  have a: "discoverHops wNet wTest wLookup wEnvsSilent 2
     = Some (Inr ([] :: 32 word HopData list, Some ErrNotExist))"
    by (simp add: discoverHops_def two wEnvsSilent_def wProbeHop1 wProbeHop2 wNames Let_def)
  have b: "discoverHops wNet wTest wLookup wEnvs 3
     = Some (Inr ([wHop1\<lparr>Name := ''gw.example'', FullName := ''gw.example''\<rparr>, wHop2, wHop3], None))"
    apply (simp add: discoverHops_def three wEnvs_def wProbeHop1 wProbeHop2 wProbeHop3 wNames Let_def)
    apply (simp add: wHop1_def wHop2_def wHop3_def zeroHopData_def wNames)
    done
  from a b show ?thesis
    by (simp add: TestTraceRoute_def)
qed

section \<open>Properties of the latency statistics\<close>

text \<open>The indices that the batches of this file use, evaluated.\<close>

lemma floatIdx_small:
  "floatPctIndex 2 c99_9 = Some 0" "floatPctIndex 2 c99_99 = Some 0"
  "floatPctIndex 5 c99_9 = Some 3" "floatPctIndex 5 c99_99 = Some 3"
  by code_simp+

lemma floatIdx_large:
  "floatPctIndex 47721858 c99_9 = Some 47674135" "floatPctIndex 47721858 c99_99 = Some 47717084"
  by code_simp+

lemma pctIdx_values:
  "pctIndex 2 50 = 0" "pctIndex 2 90 = 0" "pctIndex 2 95 = 0" "pctIndex 2 99 = 0"
  "pctIndex 5 50 = 1" "pctIndex 5 90 = 3" "pctIndex 5 95 = 3" "pctIndex 5 99 = 3"
  "pctIndex 47721858 50 = 23860928" "pctIndex 47721858 90 = 42949671"
  "pctIndex 47721858 95 = 2386091" "pctIndex 47721858 99 = 4294965"
  "pctIndex 43383509 50 = 21691753" "pctIndex 43383509 90 = 39045157"
  "pctIndex 43383509 95 = 41214332" "pctIndex 43383509 99 = 4294967295"
  by (simp_all add: pctIndex_def)

lemma pctIndex_unat:
  assumes "unat n * unat p < 2 ^ 32" and "100 \<le> unat n * unat p"
  shows "unat (pctIndex n p) = (unat n * unat p) div 100 - 1"
proof -
  have m: "unat (n * p) = unat n * unat p"
    using assms(1) by (simp add: unat_word_ariths)
  have d: "unat ((n * p) div 100) = (unat n * unat p) div 100"
    by (simp add: unat_div m)
  have "1 \<le> (unat n * unat p) div 100"
    using assms(2) by (simp add: Suc_le_eq less_eq_div_iff_mult_less_eq)
  then have "1 \<le> unat ((n * p) div 100)" by (simp only: d)
  then have "unat ((n * p) div 100 - 1) = unat ((n * p) div 100) - 1"
    by (simp add: unat_sub word_le_nat_alt)
  then show ?thesis by (simp add: pctIndex_def d)
qed

text \<open>
  While \<open>rttCountFixed * 99\<close> fits \<open>uint32\<close>, the four integer indices are in
  range and do not decrease with the percentile.
\<close>

lemma pctIndex_no_overflow:
  assumes "2 \<le> unat n" and "unat n * 99 < 2 ^ 32"
  shows "unat (pctIndex n 50) \<le> unat (pctIndex n 90)"
    and "unat (pctIndex n 90) \<le> unat (pctIndex n 95)"
    and "unat (pctIndex n 95) \<le> unat (pctIndex n 99)"
    and "unat (pctIndex n 99) < unat n"
proof -
  have e: "unat (pctIndex n 50) = (unat n * 50) div 100 - 1"
    "unat (pctIndex n 90) = (unat n * 90) div 100 - 1"
    "unat (pctIndex n 95) = (unat n * 95) div 100 - 1"
    "unat (pctIndex n 99) = (unat n * 99) div 100 - 1"
    using assms pctIndex_unat [of n 50] pctIndex_unat [of n 90] pctIndex_unat [of n 95]
      pctIndex_unat [of n 99]
    by simp_all
  show "unat (pctIndex n 50) \<le> unat (pctIndex n 90)"
    and "unat (pctIndex n 90) \<le> unat (pctIndex n 95)"
    and "unat (pctIndex n 95) \<le> unat (pctIndex n 99)"
    and "unat (pctIndex n 99) < unat n"
    using assms(1) unfolding e by (simp_all add: diff_le_mono div_le_mono) 
qed

lemma tdiv_one: "tdiv a 1 = a"
  by (simp add: tdiv_def mult_sgn_abs)

lemma div64_one: "div64 s 1 = Inr s"
  by (simp add: div64_def tdiv_one)

lemma foldl_add_replicate:
  "foldl (\<lambda>sum d. sum + d) s (replicate k x) = s + of_nat k * (x :: 64 word)"
  by (induction k arbitrary: s) (simp_all add: algebra_simps)

lemma sumNanos_two_blocks:
  "sumNanos (replicate a x @ replicate b y) = of_nat a * x + of_nat b * y"
  by (simp add: sumNanos_def foldl_add_replicate)

lemma at_two_blocks:
  "at (replicate a x @ replicate b y) i =
     (if 0 \<le> i \<and> i < int a then Inr x
      else if 0 \<le> i \<and> i < int a + int b then Inr y
      else Inl IndexOutOfRange)"
  by (auto simp: at_def nth_append)

lemma sort_two_blocks:
  assumes "sint x \<le> sint y"
  shows "sort_key sint (replicate b y @ replicate a x) = replicate a x @ replicate b y"
proof (rule sort_key_inj_key_eq)
  show "mset (replicate b y @ replicate a x) = mset (replicate a x @ replicate b y)"
    by (simp add: union_commute)
  show "inj_on sint (set (replicate b y @ replicate a x))"
    by (rule inj_onI) (simp add: word_eq_sint_D)
  show "sorted (map sint (replicate a x @ replicate b y))"
    using assms by (simp add: sorted_append)
qed

lemma sorted_slowThenFast:
  "sort_key sint slowThenFast = replicate 10000000 1000000 @ replicate 37721858 2000000"
  unfolding slowThenFast_def by (rule sort_two_blocks) simp

lemma sum_slowThenFast: "sumNanos slowThenFast = 85443716000000"
  by (simp add: slowThenFast_def sumNanos_two_blocks)

lemma sumNanos_replicate: "sumNanos (replicate a x) = of_nat a * x"
  by (simp add: sumNanos_def foldl_add_replicate)

lemma at_replicate:
  "at (replicate a x) i = (if 0 \<le> i \<and> i < int a then Inr x else Inl IndexOutOfRange)"
  by (auto simp: at_def)

lemma sort_replicate: "sort_key sint (replicate a x) = replicate a x"
  by (rule sort_key_id_if_sorted) simp

text \<open>
  Claim C5. For a batch with \<open>rttCount = 1\<close> the count used for indexing is 2, and
  every reported value (the average, the minimum, the maximum and the six
  percentiles) is the single sample.
\<close>

theorem latencyStats_single_sample:
  "rttCountFixed 1 = 2
   \<and> latencyStats 1 [s] =
       Inr \<lparr>avg = s, min_l = s, max_l = s, p50 = s, p90 = s, p95 = s, p99 = s,
            p999 = s, p9999 = s\<rparr>"
  by (simp add: latencyStats_def rttCountFixed_def sumNanos_def div64_one bindP_def at_def
      atFloat_def pctIdx_values floatIdx_small)

text \<open>
  Claim C7. For \<open>rttCount = 5\<close> and the samples 9, 1, 5, 3, 7 ms the batch reports
  min 1 ms, max 9 ms, avg 5 ms, p50 3 ms (sorted index 1) and 7 ms (sorted index 3)
  for p90, p95, p99 and p999.
\<close>

theorem latencyStats_five_samples:
  "latencyStats 5 [9000000, 1000000, 5000000, 3000000, 7000000] =
       Inr \<lparr>avg = 5000000, min_l = 1000000, max_l = 9000000, p50 = 3000000,
            p90 = 7000000, p95 = 7000000, p99 = 7000000, p999 = 7000000, p9999 = 7000000\<rparr>
   \<and> sort_key sint [9000000, 1000000, 5000000, 3000000, 7000000 :: Duration]
       = [1000000, 3000000, 5000000, 7000000, 9000000]
   \<and> uint (pctIndex (rttCountFixed 5) 50) = 1
   \<and> uint (pctIndex (rttCountFixed 5) 90) = 3
   \<and> uint (pctIndex (rttCountFixed 5) 95) = 3
   \<and> uint (pctIndex (rttCountFixed 5) 99) = 3
   \<and> floatPctIndex (rttCountFixed 5) c99_9 = Some 3"
  by (simp add: latencyStats_def rttCountFixed_def sumNanos_def div64_def tdiv_def bindP_def at_def
      atFloat_def pctIdx_values floatIdx_small)

text \<open>
  Claim C6. The reported values should satisfy
  \<open>min \<le> p50 \<le> p90 \<le> p95 \<le> p99 \<le> p999 \<le> p9999 \<le> max\<close> for every batch.
  The products \<open>rttCountFixed * p\<close> are computed in \<open>uint32\<close>: for
  \<open>rttCount = 47721858\<close> the product with 90 still fits, the products with 95 and 99
  wrap around, and every index stays in range. On 37721858 samples of 2 ms and
  10000000 of 1 ms the batch reports p90 = 2 ms above p95 = p99 = 1 ms.
\<close>

theorem latencyStats_overflow_breaks_chain:
  "latencyStats 47721858 slowThenFast =
       Inr \<lparr>avg = 1790452, min_l = 1000000, max_l = 2000000, p50 = 2000000,
            p90 = 2000000, p95 = 1000000, p99 = 1000000, p999 = 2000000, p9999 = 2000000\<rparr>
   \<and> length slowThenFast = 47721858
   \<and> uint (pctIndex (rttCountFixed 47721858) 90) = 42949671
   \<and> uint (pctIndex (rttCountFixed 47721858) 95) = 2386091"
  by (simp add: latencyStats_def rttCountFixed_def sorted_slowThenFast sum_slowThenFast
      div64_def tdiv_def bindP_def at_two_blocks atFloat_def pctIdx_values floatIdx_large)
    (simp add: slowThenFast_def)

text \<open>
  Claim C10. For \<open>rttCount \<ge> 1\<close> every index into the samples should lie in
  \<open>[0, rttCount - 1]\<close> and the divisor of the average be nonzero; \<open>rttCount = 0\<close>
  divides by zero. The divisor is as claimed and a batch of \<open>rttCount = 0\<close> panics
  on the division, but for \<open>rttCount = 43383509\<close> the product with 99 wraps around
  to 95, the index of p99 is \<open>0 - 1 = 4294967295\<close> in \<open>uint32\<close>, and the batch
  panics with an index out of range.
\<close>

theorem latencyStats_overflow_index_out_of_range:
  "latencyStats 43383509 steady = Inl IndexOutOfRange
   \<and> length steady = 43383509
   \<and> uint (pctIndex (rttCountFixed 43383509) 95) = 41214332
   \<and> uint (pctIndex (rttCountFixed 43383509) 99) = 4294967295
   \<and> latencyStats 0 [] = Inl DivideByZero"
  by (simp add: latencyStats_def rttCountFixed_def steady_def sumNanos_replicate sort_replicate
      div64_def tdiv_def bindP_def at_replicate atFloat_def pctIdx_values)

section \<open>Properties of the UDP worker\<close>

text \<open>
  A datagram from a sender that the worker's map knows is counted. A datagram from a
  sender new to the map and to the registry creates the Test and leaves it as created.
\<close>

lemma udp_known_sender_counted:
  assumes "\<not> readFails d" and "tests w (server d) = Some p" and "heap (srv w) p = Some t"
  shows "srvrRunUDPPacket fresh w d =
     Continue (w\<lparr>srv := (srv w)\<lparr>heap := (heap (srv w))(p \<mapsto>
        t\<lparr>lastAccess := now d, pps := pps t + 1, bw := bw t + word_of_int (n_read d)\<rparr>)\<rparr>\<rparr>)"
  using assms by (simp add: srvrRunUDPPacket_def countDatagram_def Let_def)

lemma udp_new_sender_not_counted:
  assumes "\<not> readFails d" and "tests w (server d) = None"
    and "registry (srv w) (server d, UDP, All) = None"
    and "handshakeWithClient (decoded d) (writeFails d) = None"
  shows "srvrRunUDPPacket fresh w d =
     Continue \<lparr>tests = (tests w)(server d \<mapsto> nextPtr (srv w)),
               srv = (srv w)\<lparr>registry := (registry (srv w))((server d, UDP, All) \<mapsto> nextPtr (srv w)),
                             heap := (heap (srv w))(nextPtr (srv w) \<mapsto> fresh),
                             nextPtr := Suc (nextPtr (srv w))\<rparr>\<rparr>"
  using assms
  by (simp add: srvrRunUDPPacket_def countDatagram_def createOrGetTest_def Let_def)

lemma wAfterFirst:
  "srvrRunUDPPacket wFresh wWorker wFirst =
     Continue \<lparr>tests = [''10.0.0.5'' \<mapsto> 0],
               srv = \<lparr>registry = [(''10.0.0.5'', UDP, All) \<mapsto> 0], heap = [0 \<mapsto> wFresh],
                      nextPtr = Suc 0\<rparr>\<rparr>"
  by (simp add: srvrRunUDPPacket_def wWorker_def wFirst_def createOrGetTest_def
      handshakeWithClient_def countDatagram_def Let_def)

text \<open>
  Claim C1. Every datagram a worker receives should set \<open>lastAccess\<close> of the
  sender's Test to the current time, add 1 to \<open>pps\<close> and the byte count to \<open>bw\<close>,
  the first datagram of a new sender included. For that first datagram the \<open>test\<close>
  that line 322 reads is nil, because the Test just created is bound to another
  variable of the same name: after a first datagram of 100 bytes at time 1000 the new
  Test still has \<open>lastAccess = 0\<close>, \<open>pps = 0\<close> and \<open>bw = 0\<close>, and after a
  second one of 50 bytes at time 2000 it has \<open>pps = 1\<close> and \<open>bw = 50\<close>.
\<close>

theorem udp_first_datagram_not_counted:
  "testOf (srvrRunUDPPacketHandler wFresh wWorker [wFirst]) ''10.0.0.5''
     = Some \<lparr>remoteIP = ''10.0.0.5'', bw = 0, cps = 0, pps = 0, latency = 0,
             lastAccess = 0, isActive = True\<rparr>
   \<and> testOf (srvrRunUDPPacketHandler wFresh wWorker [wFirst, wSecond]) ''10.0.0.5''
     = Some \<lparr>remoteIP = ''10.0.0.5'', bw = 50, cps = 0, pps = 1, latency = 0,
             lastAccess = 2000, isActive = True\<rparr>"
  apply (simp add: wAfterFirst)
  apply (simp add: srvrRunUDPPacket_def wSecond_def countDatagram_def testOf_def wFresh_def Let_def)
  done
end
